theory Spec2Isabelle
  imports Main
begin

section \<open>Avatar cache: the batch script and the browser service\<close>

text \<open>
  The repository keeps local copies of GitHub avatars. A Node script
  (\<^verbatim>\<open>download-avatars.js\<close>, run by cron) walks the list of committers and downloads the
  avatars that are missing or older than a week; a browser module (the avatar service)
  does the same lazily during page visits and computes the image URLs.

  Timestamps are JavaScript numbers holding milliseconds; they are modelled as \<open>int\<close>.
  Every call of \<^verbatim>\<open>Date.now()\<close> is an input: the functions take the reading as an argument,
  or read it from the environment record, where one reading is recorded per key and call
  site. Strings are \<open>string\<close>; file contents and response bodies are strings too.
\<close>

subsection \<open>Numbers in template literals\<close>

text \<open>
  A template literal \<^verbatim>\<open>`${n}`\<close> prints an integral number in decimal, with a leading
  minus sign when it is negative.
\<close>

definition digit_char :: "nat \<Rightarrow> char" where
  "digit_char d = ''0123456789'' ! d"

fun show_nat :: "nat \<Rightarrow> string" where
  "show_nat n = (if n < 10 then [digit_char n] else show_nat (n div 10) @ [digit_char (n mod 10)])"

declare show_nat.simps [simp del]

definition show_int :: "int \<Rightarrow> string" where
  "show_int i = (if i < 0 then CHR ''-'' # show_nat (nat (- i)) else show_nat (nat i))"

subsection \<open>Metadata\<close>

text \<open>
  An entry of the metadata is \<^verbatim>\<open>{ lastUpdated, path }\<close>. The metadata is read back from
  JSON, so the field \<^verbatim>\<open>lastUpdated\<close> may be missing: it is an option. The batch script
  keeps \<^verbatim>\<open>{ lastRun, avatars }\<close> in \<^verbatim>\<open>metadata.json\<close>; the browser module keeps
  \<^verbatim>\<open>{ avatars, lastCheck }\<close> in \<^verbatim>\<open>localStorage\<close>.
\<close>

record avatar_meta =
  lastUpdated :: "int option"
  path :: string

record metadata =
  lastRun :: int
  avatars :: "string \<rightharpoonup> avatar_meta"

text \<open>
  What a persistent location holds: nothing, text that \<^verbatim>\<open>JSON.parse\<close> rejects, or a
  well-formed value. Values of another shape than the one the program writes are outside
  the model.
\<close>

datatype 'a stored = Missing | Corrupt | Stored 'a

subsection \<open>The batch script: configuration\<close>

definition maxAgeMs :: int where
  "maxAgeMs = 7 * 24 * 60 * 60 * 1000"

definition avatarSize :: nat where
  "avatarSize = 128"

definition avatarUrl :: "string \<Rightarrow> string" where
  "avatarUrl githubId = ''https://github.com/'' @ githubId @ ''.png?size='' @ show_nat avatarSize"

text \<open>
  \<^verbatim>\<open>path.join(avatarsDir, `${githubId}.png`)\<close>; the directory depends on where the script
  is installed and is a parameter.
\<close>

definition outputPath :: "string \<Rightarrow> string \<Rightarrow> string" where
  "outputPath avatarsDir githubId = avatarsDir @ ''/'' @ githubId @ ''.png''"

subsection \<open>The world of the batch script\<close>

text \<open>
  The avatar directory maps a path to the content of the file there; \<open>sent\<close> lists the
  URLs of the GET requests issued so far, oldest first.
\<close>

record world =
  files :: "string \<rightharpoonup> string"
  sent :: "string list"

text \<open>
  What comes back for a GET request: a response with its status code, its
  \<^verbatim>\<open>Location\<close> header (if any) and its body; a transport error (the request's
  \<^verbatim>\<open>error\<close> event); or nothing within ten seconds (the timeout handler fires).
\<close>

datatype reply =
  Response nat "string option" string
  | TransportError
  | NoReply

text \<open>
  The rejections of \<^verbatim>\<open>downloadFile\<close>. The source rejects with plain \<^verbatim>\<open>Error\<close> objects:
  "Redirect with no location header for url" is \<open>RedirectError url\<close>, "Failed to
  download url, status code: n" is \<open>HttpError url n\<close>, "Request timeout for url" is
  \<open>TimeoutError url\<close>, the error of the request is \<open>NetworkError\<close> and the error of the
  write stream is \<open>StorageError\<close>.
\<close>

datatype error =
  RedirectError string
  | HttpError string nat
  | TimeoutError string
  | NetworkError
  | StorageError

text \<open>
  The environment of one run of the script: the remote host, whether the write stream
  to a path finishes (otherwise it raises its \<^verbatim>\<open>error\<close> event), the installation
  directory, and the clock: \<open>checked_at k\<close> is the reading of \<^verbatim>\<open>Date.now()\<close> inside
  \<^verbatim>\<open>shouldDownloadAvatar\<close> for key \<open>k\<close>, \<open>done_at k\<close> the reading in the callback that runs
  when the download of \<open>k\<close> has succeeded, and \<open>finished_at\<close> the reading once all
  downloads have settled.
\<close>

record env =
  remote :: "string \<Rightarrow> reply"
  writes :: "string \<Rightarrow> bool"
  avatarsDir :: string
  checked_at :: "string \<Rightarrow> int"
  done_at :: "string \<Rightarrow> int"
  finished_at :: int

subsection \<open>\<^verbatim>\<open>shouldDownloadAvatar\<close>\<close>

text \<open>
  \<^verbatim>\<open>!avatarMeta.lastUpdated\<close> holds when the field is missing and also when it is \<open>0\<close>.
\<close>

definition shouldDownloadAvatar ::
  "bool \<Rightarrow> world \<Rightarrow> metadata \<Rightarrow> int \<Rightarrow> string \<Rightarrow> string \<Rightarrow> bool" where
  "shouldDownloadAvatar forceDownload w m now githubId filePath =
     (if forceDownload then True
      else if files w filePath = None then True
      else (case avatars m githubId of
              None \<Rightarrow> True
            | Some avatarMeta \<Rightarrow>
                (case lastUpdated avatarMeta of
                   None \<Rightarrow> True
                 | Some t \<Rightarrow> if t = 0 then True else now - t > maxAgeMs)))"

subsection \<open>\<^verbatim>\<open>downloadFile\<close>\<close>

text \<open>
  The function calls itself on the target of a redirect, without a bound on the number
  of redirects, so it is a partial function: \<open>None\<close> is a download that never settles.
  A settled download is \<open>Inr ()\<close> when the promise resolves and \<open>Inl e\<close> when it rejects,
  together with the world it leaves. A \<^verbatim>\<open>Location\<close> header that is the empty string
  counts as missing, as in \<^verbatim>\<open>if (response.headers.location)\<close>. When the write stream
  fails, the file at the output path is unlinked. Time itself is not modelled: whether
  a request times out is an answer of the environment, and a timeout or a transport error
  that strikes after a response has begun is left out.
\<close>

partial_function (option) downloadFile ::
  "(string \<Rightarrow> reply) \<Rightarrow> (string \<Rightarrow> bool) \<Rightarrow> world \<Rightarrow> string \<Rightarrow> string
     \<Rightarrow> ((error + unit) \<times> world) option" where
  "downloadFile rem wr w url out =
     (let w1 = w\<lparr>sent := sent w @ [url]\<rparr> in
      case rem url of
        TransportError \<Rightarrow> Some (Inl NetworkError, w1)
      | NoReply \<Rightarrow> Some (Inl (TimeoutError url), w1)
      | Response statusCode location body \<Rightarrow>
          if statusCode = 301 \<or> statusCode = 302 then
            (case location of
               None \<Rightarrow> Some (Inl (RedirectError url), w1)
             | Some target \<Rightarrow>
                 if target = [] then Some (Inl (RedirectError url), w1)
                 else downloadFile rem wr w1 target out)
          else if statusCode \<noteq> 200 then Some (Inl (HttpError url statusCode), w1)
          else if wr out then Some (Inr (), w1\<lparr>files := (files w1)(out \<mapsto> body)\<rparr>)
          else Some (Inl StorageError, w1\<lparr>files := (files w1)(out := None)\<rparr>))"

subsection \<open>\<^verbatim>\<open>downloadAvatars\<close>\<close>

text \<open>
  The counters of the run; \<open>total\<close> is \<^verbatim>\<open>githubIds.length\<close>, which the summary prints as
  "Total processed".
\<close>

record batch =
  total :: nat
  completed :: nat
  downloaded :: nat
  skipped :: nat
  failed :: nat
  meta :: metadata
  disk :: world

text \<open>
  \<^verbatim>\<open>forEach\<close> runs synchronously: every call of \<^verbatim>\<open>shouldDownloadAvatar\<close> happens before
  any download has settled, so each key is judged against the world \<open>w0\<close> and the
  metadata \<open>m0\<close> of the start of the run. The callbacks of the downloads run later, in
  the order in which the downloads settle; the model runs them in the order of the
  list. The counters only count and a callback touches the entry and the file of its own
  key only, so the order matters for a key that occurs twice, where the later occurrence
  wins here.
\<close>

fun forEach_githubId ::
  "env \<Rightarrow> bool \<Rightarrow> world \<Rightarrow> metadata \<Rightarrow> string list \<Rightarrow> batch \<Rightarrow> batch option" where
  "forEach_githubId e forceDownload w0 m0 [] st = Some st"
| "forEach_githubId e forceDownload w0 m0 (githubId # rest) st =
     (if \<not> shouldDownloadAvatar forceDownload w0 m0 (checked_at e githubId) githubId
            (outputPath (avatarsDir e) githubId)
      then forEach_githubId e forceDownload w0 m0 rest
             (st\<lparr>completed := completed st + 1, skipped := skipped st + 1\<rparr>)
      else
        (case downloadFile (remote e) (writes e) (disk st) (avatarUrl githubId)
                (outputPath (avatarsDir e) githubId) of
           None \<Rightarrow> None
         | Some (Inr u, w') \<Rightarrow>
             forEach_githubId e forceDownload w0 m0 rest
               (st\<lparr>completed := completed st + 1, downloaded := downloaded st + 1,
                   meta := (meta st)\<lparr>avatars := (avatars (meta st))(githubId \<mapsto>
                     \<lparr>lastUpdated = Some (done_at e githubId),
                      path = outputPath (avatarsDir e) githubId\<rparr>)\<rparr>,
                   disk := w'\<rparr>)
         | Some (Inl err, w') \<Rightarrow>
             forEach_githubId e forceDownload w0 m0 rest
               (st\<lparr>completed := completed st + 1, failed := failed st + 1, disk := w'\<rparr>)))"

definition downloadAvatars ::
  "env \<Rightarrow> bool \<Rightarrow> metadata \<Rightarrow> world \<Rightarrow> string list \<Rightarrow> batch option" where
  "downloadAvatars e forceDownload m0 w0 githubIds =
     forEach_githubId e forceDownload w0 m0 githubIds
       \<lparr>total = length githubIds, completed = 0, downloaded = 0, skipped = 0, failed = 0,
        meta = m0, disk = w0\<rparr>"

subsection \<open>The script as a whole\<close>

text \<open>
  The script starts from \<^verbatim>\<open>{ lastRun: 0, avatars: {} }\<close>, replaces it by the content of
  \<^verbatim>\<open>metadata.json\<close> when the file is there and parses, downloads, and then writes the
  metadata back with a new \<^verbatim>\<open>lastRun\<close>. The write of the metadata file is taken to
  succeed.
\<close>

record server =
  metadataFile :: "metadata stored"
  directory :: world

definition emptyMetadata :: metadata where
  "emptyMetadata = \<lparr>lastRun = 0, avatars = Map.empty\<rparr>"

definition loadMetadata :: "metadata stored \<Rightarrow> metadata" where
  "loadMetadata f = (case f of Stored m \<Rightarrow> m | Corrupt \<Rightarrow> emptyMetadata | Missing \<Rightarrow> emptyMetadata)"

definition reconcile :: "env \<Rightarrow> bool \<Rightarrow> string list \<Rightarrow> server \<Rightarrow> (batch \<times> server) option" where
  "reconcile e forceDownload githubIds sv =
     (case downloadAvatars e forceDownload (loadMetadata (metadataFile sv)) (directory sv) githubIds of
        None \<Rightarrow> None
      | Some st \<Rightarrow>
          Some (st, \<lparr>metadataFile = Stored ((meta st)\<lparr>lastRun := finished_at e\<rparr>),
                     directory = disk st\<rparr>))"

subsection \<open>The browser module\<close>

text \<open>
  The avatar service keeps its metadata \<^verbatim>\<open>{ avatars, lastCheck }\<close> under the key
  \<^verbatim>\<open>avatar_metadata\<close> of \<^verbatim>\<open>localStorage\<close>. A missing \<^verbatim>\<open>lastCheck\<close> behaves as \<open>0\<close> in every
  test the module makes, so the field is an \<open>int\<close>.
\<close>

record session_metadata =
  session_avatars :: "string \<rightharpoonup> avatar_meta"
  lastCheck :: int

definition CACHE_EXPIRATION :: int where
  "CACHE_EXPIRATION = 7 * 24 * 60 * 60 * 1000"

definition AVATAR_DIR :: string where
  "AVATAR_DIR = ''/img/avatars''"

definition dayMs :: int where
  "dayMs = 24 * 60 * 60 * 1000"

text \<open>
  What the module does to the outside, in order: a call of \<^verbatim>\<open>localStorage.setItem\<close> with
  the metadata, a \<^verbatim>\<open>fetch\<close> of a URL, and the POST of a blob for a key to
  \<^verbatim>\<open>/api/save-avatar\<close>.
\<close>

datatype event =
  SetItem session_metadata
  | Fetch string
  | Post string string

text \<open>
  The state of one page: the module's flag \<^verbatim>\<open>updatesChecked\<close>, whether \<^verbatim>\<open>window\<close> is
  defined, what \<^verbatim>\<open>localStorage\<close> holds under the key, whether \<^verbatim>\<open>setItem\<close> succeeds
  (otherwise it throws and \<^verbatim>\<open>saveMetadata\<close> logs the error), and the events so far, oldest
  first.
\<close>

record browser =
  updatesChecked :: bool
  window :: bool
  localStorage :: "session_metadata stored"
  quota :: bool
  effects :: "event list"

text \<open>
  \<^verbatim>\<open>fetch\<close> follows redirects by itself; it rejects (or the body cannot be read, which
  ends in the same \<^verbatim>\<open>catch\<close>), or resolves to a response with a status and a body.
\<close>

datatype fetch_reply = Rejected | Answer nat string

definition ok :: "nat \<Rightarrow> bool" where
  "ok status \<longleftrightarrow> 200 \<le> status \<and> status \<le> 299"

text \<open>
  The environment of the deferred refresh: the image host, the save endpoint (called
  with the key and the blob), and the clock: \<open>refresh_checked_at k\<close> is the reading of
  \<^verbatim>\<open>Date.now()\<close> in \<^verbatim>\<open>needsRefresh\<close> for key \<open>k\<close>, \<open>requested_at k\<close> the reading that goes
  into the URL, \<open>saved_at k\<close> the reading stored as \<^verbatim>\<open>lastUpdated\<close>.
\<close>

record page =
  github :: "string \<Rightarrow> fetch_reply"
  save_avatar :: "string \<Rightarrow> string \<Rightarrow> fetch_reply"
  refresh_checked_at :: "string \<Rightarrow> int"
  requested_at :: "string \<Rightarrow> int"
  saved_at :: "string \<Rightarrow> int"

definition emptySession :: session_metadata where
  "emptySession = \<lparr>session_avatars = Map.empty, lastCheck = 0\<rparr>"

definition getMetadata :: "browser \<Rightarrow> session_metadata" where
  "getMetadata st =
     (if \<not> window st then emptySession
      else (case localStorage st of
              Stored data \<Rightarrow> data
            | Missing \<Rightarrow> emptySession
            | Corrupt \<Rightarrow> emptySession))"

definition saveMetadata :: "session_metadata \<Rightarrow> browser \<Rightarrow> browser" where
  "saveMetadata m st =
     (if \<not> window st then st
      else st\<lparr>effects := effects st @ [SetItem m],
              localStorage := (if quota st then Stored m else localStorage st)\<rparr>)"

text \<open>
  \<^verbatim>\<open>metadata.avatars[githubId]?.lastUpdated || Date.now()\<close>: the recorded time unless the
  entry or the field is missing or the time is \<open>0\<close>.
\<close>

definition getAvatarUrl :: "int \<Rightarrow> browser \<Rightarrow> string \<Rightarrow> string" where
  "getAvatarUrl now st githubId =
     (if window st then
        (let m = getMetadata st;
             timestamp =
               (case session_avatars m githubId of
                  None \<Rightarrow> now
                | Some a \<Rightarrow>
                    (case lastUpdated a of
                       None \<Rightarrow> now
                     | Some t \<Rightarrow> if t = 0 then now else t))
         in AVATAR_DIR @ ''/'' @ githubId @ ''.png?t='' @ show_int timestamp)
      else AVATAR_DIR @ ''/'' @ githubId @ ''.png'')"

definition needsRefresh :: "int \<Rightarrow> browser \<Rightarrow> string \<Rightarrow> bool" where
  "needsRefresh now st githubId =
     (let m = getMetadata st in
      case session_avatars m githubId of
        None \<Rightarrow> True
      | Some avatar \<Rightarrow>
          (case lastUpdated avatar of
             None \<Rightarrow> True
           | Some t \<Rightarrow> if t = 0 then True else now - t > CACHE_EXPIRATION))"

text \<open>
  \<^verbatim>\<open>downloadAvatar\<close>: every failure ends in the \<^verbatim>\<open>catch\<close>, which logs and returns
  \<^verbatim>\<open>false\<close>.
\<close>

definition downloadAvatar :: "page \<Rightarrow> string \<Rightarrow> browser \<Rightarrow> bool \<times> browser" where
  "downloadAvatar p githubId st =
     (let avatarUrl = ''https://github.com/'' @ githubId @ ''.png?size=128&t=''
                        @ show_int (requested_at p githubId);
          st1 = st\<lparr>effects := effects st @ [Fetch avatarUrl]\<rparr>
      in case github p avatarUrl of
           Rejected \<Rightarrow> (False, st1)
         | Answer status blob \<Rightarrow>
             if \<not> ok status then (False, st1)
             else
               (let st2 = st1\<lparr>effects := effects st1 @ [Post githubId blob]\<rparr>
                in case save_avatar p githubId blob of
                     Rejected \<Rightarrow> (False, st2)
                   | Answer saveStatus saveBody \<Rightarrow>
                       if \<not> ok saveStatus then (False, st2)
                       else
                         (let m = getMetadata st2;
                              m' = m\<lparr>session_avatars := (session_avatars m)(githubId \<mapsto>
                                     \<lparr>lastUpdated = Some (saved_at p githubId),
                                      path = AVATAR_DIR @ ''/'' @ githubId @ ''.png''\<rparr>)\<rparr>
                          in (True, saveMetadata m' st2))))"

text \<open>
  The callback that \<^verbatim>\<open>checkAndUpdateAvatars\<close> hands to \<^verbatim>\<open>setTimeout\<close>: it goes through
  the keys one after the other and returns the number of avatars it has updated.
\<close>

fun refresh_loop :: "page \<Rightarrow> string list \<Rightarrow> nat \<Rightarrow> browser \<Rightarrow> nat \<times> browser" where
  "refresh_loop p [] updated st = (updated, st)"
| "refresh_loop p (githubId # rest) updated st =
     (if needsRefresh (refresh_checked_at p githubId) st githubId then
        (case downloadAvatar p githubId st of
           (success, st') \<Rightarrow> refresh_loop p rest (if success then updated + 1 else updated) st')
      else refresh_loop p rest updated st)"

text \<open>
  \<^verbatim>\<open>checkAndUpdateAvatars\<close> returns the new state and the timer it has set, if any: the
  delay in milliseconds and the keys the callback will go through.
\<close>

definition checkAndUpdateAvatars ::
  "int \<Rightarrow> string list \<Rightarrow> browser \<Rightarrow> browser \<times> (nat \<times> string list) option" where
  "checkAndUpdateAvatars now githubIds st =
     (if updatesChecked st \<or> \<not> window st then (st, None)
      else
        (let st1 = st\<lparr>updatesChecked := True\<rparr>;
             m = getMetadata st1
         in if lastCheck m \<noteq> 0 \<and> now - lastCheck m < dayMs then (st1, None)
            else (saveMetadata (m\<lparr>lastCheck := now\<rparr>) st1, Some (2000, githubIds))))"

text \<open>A call followed by the run of the timer it has set.\<close>

definition visit :: "page \<Rightarrow> int \<Rightarrow> string list \<Rightarrow> browser \<Rightarrow> browser" where
  "visit p now githubIds st =
     (case checkAndUpdateAvatars now githubIds st of
        (st', None) \<Rightarrow> st'
      | (st', Some (delay, ids)) \<Rightarrow> snd (refresh_loop p ids 0 st'))"

subsection \<open>The second copy of the service\<close>

text \<open>
  A second file holds a smaller avatar service, without storage; its \<^verbatim>\<open>getAvatarUrl\<close>
  never adds a parameter.
\<close>

definition getAvatarUrl_plain :: "string \<Rightarrow> string" where
  "getAvatarUrl_plain githubId = AVATAR_DIR @ ''/'' @ githubId @ ''.png''"

section \<open>Notions used in the statements\<close>

text \<open>
  The target of a redirect that \<^verbatim>\<open>downloadFile\<close> follows, and the URL reached from a URL
  after a number of such redirects.
\<close>

definition redirect_target :: "reply \<Rightarrow> string option" where
  "redirect_target r =
     (case r of
        Response statusCode location body \<Rightarrow>
          if statusCode = 301 \<or> statusCode = 302 then
            (case location of None \<Rightarrow> None | Some target \<Rightarrow> if target = [] then None else Some target)
          else None
      | TransportError \<Rightarrow> None
      | NoReply \<Rightarrow> None)"

fun after_redirects :: "(string \<Rightarrow> reply) \<Rightarrow> nat \<Rightarrow> string \<Rightarrow> string option" where
  "after_redirects rem 0 url = Some url"
| "after_redirects rem (Suc n) url =
     (case redirect_target (rem url) of None \<Rightarrow> None | Some target \<Rightarrow> after_redirects rem n target)"

text \<open>
  The download of the avatar of a key succeeds, whatever the directory holds; and it
  settles, resolved or rejected.
\<close>

definition fetch_succeeds :: "env \<Rightarrow> string \<Rightarrow> bool" where
  "fetch_succeeds e k \<longleftrightarrow>
     (\<forall>w. \<exists>w'. downloadFile (remote e) (writes e) w (avatarUrl k) (outputPath (avatarsDir e) k)
                  = Some (Inr (), w'))"

definition settles :: "env \<Rightarrow> string \<Rightarrow> bool" where
  "settles e k \<longleftrightarrow>
     (\<forall>w. downloadFile (remote e) (writes e) w (avatarUrl k) (outputPath (avatarsDir e) k) \<noteq> None)"



text \<open>
  A session of the browser module: calls of \<^verbatim>\<open>checkAndUpdateAvatars\<close>, each with its
  reading of the clock and its list of keys, and each followed by the run of its timer.
\<close>

fun visits :: "page \<Rightarrow> (int \<times> string list) list \<Rightarrow> browser \<Rightarrow> browser" where
  "visits p [] st = st"
| "visits p ((now, githubIds) # later) st = visits p later (visit p now githubIds st)"

subsection \<open>Concrete inputs\<close>

text \<open>
  A remote host on which the avatar of alice is behind a redirect, the one of bob is
  served at once, the one of carol is behind a redirect to a redirect without
  \<^verbatim>\<open>Location\<close>, and everything else is not found.
\<close>

definition example_remote :: "string \<Rightarrow> reply" where
  "example_remote url =
     (if url = ''https://github.com/alice.png?size=128''
        then Response 302 (Some ''https://avatars.example/u/1'') []
      else if url = ''https://avatars.example/u/1'' then Response 200 None ''ALICE''
      else if url = ''https://github.com/bob.png?size=128'' then Response 200 None ''BOB''
      else if url = ''https://github.com/carol.png?size=128''
        then Response 301 (Some ''https://avatars.example/u/3'') []
      else if url = ''https://avatars.example/u/3'' then Response 302 None []
      else Response 404 None [])"

definition example_env :: env where
  "example_env =
     \<lparr>remote = example_remote, writes = (\<lambda>p. True), avatarsDir = ''static/img/avatars'',
      checked_at = (\<lambda>k. 1700000000000),
      done_at = (\<lambda>k. if k = ''alice'' then 1700000000500 else 1700000000900),
      finished_at = 1700000001000\<rparr>"


definition fresh_server :: server where
  "fresh_server = \<lparr>metadataFile = Missing, directory = \<lparr>files = Map.empty, sent = []\<rparr>\<rparr>"

text \<open>
  An empty directory; a directory and metadata in which bob was refreshed some seventeen
  minutes before the reading \<open>1700000000000\<close>; and metadata in which the entry of bob has
  the time \<open>0\<close>.
\<close>

definition empty_world :: world where
  "empty_world = \<lparr>files = Map.empty, sent = []\<rparr>"

definition warm_metadata :: metadata where
  "warm_metadata =
     \<lparr>lastRun = 1699999000100,
      avatars = [''bob'' \<mapsto> \<lparr>lastUpdated = Some 1699999000000,
                                path = ''static/img/avatars/bob.png''\<rparr>]\<rparr>"

definition warm_world :: world where
  "warm_world = \<lparr>files = [''static/img/avatars/bob.png'' \<mapsto> ''BOB''], sent = []\<rparr>"

definition epoch_metadata :: metadata where
  "epoch_metadata =
     \<lparr>lastRun = 0,
      avatars = [''bob'' \<mapsto> \<lparr>lastUpdated = Some 0, path = ''static/img/avatars/bob.png''\<rparr>]\<rparr>"

text \<open>
  A page whose storage knows bob and was last checked more than eleven days before the
  reading \<open>1700000000000\<close>; a host that serves the avatar of alice; a page whose storage
  holds the time \<open>0\<close> for bob; and a render without \<^verbatim>\<open>window\<close>.
\<close>

definition example_session :: session_metadata where
  "example_session =
     \<lparr>session_avatars = [''bob'' \<mapsto> \<lparr>lastUpdated = Some 1699999000000,
                                        path = ''/img/avatars/bob.png''\<rparr>],
      lastCheck = 1699000000000\<rparr>"

definition example_browser :: browser where
  "example_browser =
     \<lparr>updatesChecked = False, window = True, localStorage = Stored example_session,
      quota = True, effects = []\<rparr>"

definition example_page :: page where
  "example_page =
     \<lparr>github = (\<lambda>url. if url = ''https://github.com/alice.png?size=128&t=1700000003000''
                       then Answer 200 ''ALICE'' else Answer 404 []),
      save_avatar = (\<lambda>k blob. Answer 200 []),
      refresh_checked_at = (\<lambda>k. 1700000002500),
      requested_at = (\<lambda>k. 1700000003000),
      saved_at = (\<lambda>k. 1700000003500)\<rparr>"

definition epoch_browser :: browser where
  "epoch_browser =
     \<lparr>updatesChecked = False, window = True,
      localStorage = Stored \<lparr>session_avatars =
                                [''bob'' \<mapsto> \<lparr>lastUpdated = Some 0, path = ''/img/avatars/bob.png''\<rparr>],
                              lastCheck = 0\<rparr>,
      quota = True, effects = []\<rparr>"

definition server_render :: browser where
  "server_render =
     \<lparr>updatesChecked = False, window = False, localStorage = Missing, quota = False,
      effects = []\<rparr>"


section \<open>Lemmas\<close>

subsection \<open>URLs\<close>

lemma avatarUrl_eq: "avatarUrl k = ''https://github.com/'' @ k @ ''.png?size=128''"
  by (simp add: avatarUrl_def avatarSize_def show_nat.simps digit_char_def)

subsection \<open>\<^verbatim>\<open>downloadFile\<close>\<close>


lemma downloadFile_after_redirects:
  "after_redirects rem n url = Some u \<Longrightarrow>
     \<exists>w1. files w1 = files w \<and> downloadFile rem wr w url out = downloadFile rem wr w1 u out"
proof (induction n arbitrary: url w)
  case 0
  then show ?case by auto
next
  case (Suc n)
  then obtain target where t: "redirect_target (rem url) = Some target"
    and a: "after_redirects rem n target = Some u"
    by (auto split: option.splits)
  from t have step: "downloadFile rem wr w url out = downloadFile rem wr (w\<lparr>sent := sent w @ [url]\<rparr>) target out"
    by (subst downloadFile.simps)
       (auto simp: redirect_target_def Let_def split: reply.splits if_splits option.splits)
  from Suc.IH[OF a, of "w\<lparr>sent := sent w @ [url]\<rparr>"] step show ?case by auto
qed

lemma downloadFile_sent:
  "downloadFile rem wr w url out = Some y \<Longrightarrow> \<exists>more. sent (snd y) = sent w @ url # more"
proof (induction rem wr w url out y rule: downloadFile.raw_induct[rotated 1, consumes 1])
  case (1 f rem wr w url out y)
  show ?case
  proof (cases "redirect_target (rem url)")
    case None
    with 1(2) have "sent (snd y) = sent w @ [url]"
      by (auto simp: redirect_target_def Let_def split: reply.splits if_splits option.splits)
    then show ?thesis by simp
  next
    case (Some target)
    with 1(2) have "f rem wr (w\<lparr>sent := sent w @ [url]\<rparr>) target out = Some y"
      by (auto simp: redirect_target_def Let_def split: reply.splits if_splits option.splits)
    from 1(1)[OF this] show ?thesis by auto
  qed
qed

lemma succeeds_settles:
  assumes "fetch_succeeds e k"
  shows "settles e k"
  unfolding settles_def
proof
  fix w
  from assms obtain w' where
    "downloadFile (remote e) (writes e) w (avatarUrl k) (outputPath (avatarsDir e) k) = Some (Inr (), w')"
    unfolding fetch_succeeds_def by blast
  then show "downloadFile (remote e) (writes e) w (avatarUrl k) (outputPath (avatarsDir e) k) \<noteq> None"
    by simp
qed

subsection \<open>The loop of \<^verbatim>\<open>downloadAvatars\<close>\<close>

lemma forEach_counts:
  "forEach_githubId e f w0 m0 ks st = Some st' \<Longrightarrow>
     downloaded st' + skipped st' + failed st' = downloaded st + skipped st + failed st + length ks
     \<and> completed st' = completed st + length ks \<and> total st' = total st"
proof (induction ks arbitrary: st)
  case (Cons k ks)
  from Cons.prems show ?case
    by (auto split: if_splits option.splits sum.splits dest!: Cons.IH)
qed simp

lemma forEach_settles:
  "\<forall>k\<in>set ks. settles e k \<Longrightarrow> \<exists>st'. forEach_githubId e f w0 m0 ks st = Some st'"
proof (induction ks arbitrary: st)
  case (Cons k ks)
  then obtain r w' where
    "downloadFile (remote e) (writes e) (disk st) (avatarUrl k) (outputPath (avatarsDir e) k) = Some (r, w')"
    by (fastforce simp: settles_def)
  with Cons show ?case by (cases r) auto
qed simp



subsection \<open>The browser module\<close>

lemma saveMetadata_flags [simp]:
  "updatesChecked (saveMetadata m st) = updatesChecked st"
  "window (saveMetadata m st) = window st"
  by (simp_all add: saveMetadata_def)

lemma saveMetadata_effects:
  "effects (saveMetadata m st) = effects st @ (if window st then [SetItem m] else [])"
  by (simp add: saveMetadata_def)

lemma downloadAvatar_flags [simp]:
  "updatesChecked (snd (downloadAvatar p k st)) = updatesChecked st"
  "window (snd (downloadAvatar p k st)) = window st"
  by (simp_all add: downloadAvatar_def Let_def split: fetch_reply.splits)

lemma downloadAvatar_effects:
  "\<exists>more. effects (snd (downloadAvatar p k st))
     = effects st @ Fetch (''https://github.com/'' @ k @ ''.png?size=128&t=''
                            @ show_int (requested_at p k)) # more"
  by (simp add: downloadAvatar_def Let_def saveMetadata_effects split: fetch_reply.splits)

lemma refresh_loop_flags:
  "updatesChecked (snd (refresh_loop p ids n st)) = updatesChecked st
   \<and> window (snd (refresh_loop p ids n st)) = window st"
proof (induction ids arbitrary: n st)
  case Nil
  show ?case by simp
next
  case (Cons k ids)
  show ?case
  proof (cases "needsRefresh (refresh_checked_at p k) st k")
    case False
    with Cons.IH[of n st] show ?thesis by simp
  next
    case True
    obtain success st' where d: "downloadAvatar p k st = (success, st')"
      by (cases "downloadAvatar p k st")
    then have "updatesChecked st' = updatesChecked st" "window st' = window st"
      using downloadAvatar_flags[of p k st] by simp_all
    with True d Cons.IH[of "if success then n + 1 else n" st'] show ?thesis by simp
  qed
qed

lemma refresh_loop_effects:
  "\<exists>more. effects (snd (refresh_loop p ids n st)) = effects st @ more"
proof (induction ids arbitrary: n st)
  case Nil
  show ?case by simp
next
  case (Cons k ids)
  show ?case
  proof (cases "needsRefresh (refresh_checked_at p k) st k")
    case False
    with Cons.IH[of n st] show ?thesis by simp
  next
    case True
    obtain success st' where d: "downloadAvatar p k st = (success, st')"
      by (cases "downloadAvatar p k st")
    with downloadAvatar_effects[of p k st] obtain m1 where
      e1: "effects st' = effects st @ m1" by auto
    from Cons.IH[of "if success then n + 1 else n" st'] obtain m2 where
      "effects (snd (refresh_loop p ids (if success then n + 1 else n) st')) = effects st' @ m2"
      by blast
    with True d e1 show ?thesis by simp
  qed
qed

lemma gate_closed:
  "updatesChecked s \<or> \<not> window s \<Longrightarrow> checkAndUpdateAvatars now ids s = (s, None)"
  by (auto simp: checkAndUpdateAvatars_def)

lemma gate_closed_visit:
  "updatesChecked s \<or> \<not> window s \<Longrightarrow> visit p now ids s = s"
  by (simp add: visit_def gate_closed)

lemma gate_closed_visits:
  "updatesChecked s \<or> \<not> window s \<Longrightarrow> visits p calls s = s"
  by (induction calls arbitrary: s) (auto simp: gate_closed_visit)

lemma gate_after_call:
  "updatesChecked (fst (checkAndUpdateAvatars now ids st))
   \<or> \<not> window (fst (checkAndUpdateAvatars now ids st))"
  by (auto simp: checkAndUpdateAvatars_def Let_def)

lemma gate_after_visit:
  "updatesChecked (visit p now ids st) \<or> \<not> window (visit p now ids st)"
  using refresh_loop_flags by (auto simp: visit_def checkAndUpdateAvatars_def Let_def)

subsection \<open>The concrete inputs\<close>

lemma example_alice: "fetch_succeeds example_env ''alice''"
  unfolding fetch_succeeds_def
  by (simp add: example_env_def example_remote_def avatarUrl_eq downloadFile.simps)

lemma example_bob: "fetch_succeeds example_env ''bob''"
  unfolding fetch_succeeds_def
  by (simp add: example_env_def example_remote_def avatarUrl_eq downloadFile.simps)

lemma example_carol_settles: "settles example_env ''carol''"
  unfolding settles_def
  by (simp add: example_env_def example_remote_def avatarUrl_eq downloadFile.simps)

lemma example_settle:
  "settles example_env ''alice''" "settles example_env ''bob''"
  using example_alice example_bob by (simp_all add: succeeds_settles)


section \<open>The claims\<close>

text \<open>
  C1. The script run on the list alice, bob with no entry in the metadata and without
  \<^verbatim>\<open>--force\<close>, when both downloads succeed: it ends with total 2, downloaded 2, skipped 0,
  failed 0, and the metadata file then holds an entry for each of the two keys whose
  \<^verbatim>\<open>lastUpdated\<close> is the reading of the clock taken when the download of that key
  completed.
\<close>

theorem C1_alice_bob:
  assumes "fetch_succeeds e ''alice''" and "fetch_succeeds e ''bob''"
    and "avatars (loadMetadata (metadataFile sv)) = Map.empty"
  shows "\<exists>st sv' m. reconcile e False [''alice'', ''bob''] sv = Some (st, sv')
     \<and> total st = 2 \<and> downloaded st = 2 \<and> skipped st = 0 \<and> failed st = 0
     \<and> metadataFile sv' = Stored m
     \<and> avatars m ''alice'' = Some \<lparr>lastUpdated = Some (done_at e ''alice''),
                                   path = outputPath (avatarsDir e) ''alice''\<rparr>
     \<and> avatars m ''bob'' = Some \<lparr>lastUpdated = Some (done_at e ''bob''),
                                 path = outputPath (avatarsDir e) ''bob''\<rparr>"
proof -
  let ?m0 = "loadMetadata (metadataFile sv)"
  from assms(1) obtain wa where
    a: "downloadFile (remote e) (writes e) (directory sv) (avatarUrl ''alice'')
          (outputPath (avatarsDir e) ''alice'') = Some (Inr (), wa)"
    unfolding fetch_succeeds_def by blast
  from assms(2) obtain wb where
    b: "downloadFile (remote e) (writes e) wa (avatarUrl ''bob'')
          (outputPath (avatarsDir e) ''bob'') = Some (Inr (), wb)"
    unfolding fetch_succeeds_def by blast
  have stale: "shouldDownloadAvatar False (directory sv) ?m0 t k p" for t k p
    by (simp add: shouldDownloadAvatar_def assms(3))
  show ?thesis
    by (simp add: reconcile_def downloadAvatars_def stale a b)
qed

theorem C1_alice_bob_witness:
  "\<exists>st sv' m. reconcile example_env False [''alice'', ''bob''] fresh_server = Some (st, sv')
     \<and> total st = 2 \<and> downloaded st = 2 \<and> skipped st = 0 \<and> failed st = 0
     \<and> metadataFile sv' = Stored m
     \<and> avatars m ''alice'' = Some \<lparr>lastUpdated = Some 1700000000500,
                                   path = ''static/img/avatars/alice.png''\<rparr>
     \<and> avatars m ''bob'' = Some \<lparr>lastUpdated = Some 1700000000900,
                                 path = ''static/img/avatars/bob.png''\<rparr>"
proof -
  have e: "avatars (loadMetadata (metadataFile fresh_server)) = Map.empty"
    by (simp add: fresh_server_def loadMetadata_def emptyMetadata_def)
  from C1_alice_bob[OF example_alice example_bob e] show ?thesis
    by (simp add: example_env_def outputPath_def)
qed



text \<open>
  C3, as stated, fails for an entry whose \<^verbatim>\<open>lastUpdated\<close> is \<open>0\<close>: at the reading \<open>1000\<close>
  its age is far below the seven days, and the entry is judged stale all the same.
\<close>

theorem C3_counterexample:
  "\<not> (shouldDownloadAvatar False warm_world epoch_metadata 1000 ''bob''
         ''static/img/avatars/bob.png''
       \<longleftrightarrow> 1000 - (0::int) > maxAgeMs)"
  by (simp add: shouldDownloadAvatar_def warm_world_def epoch_metadata_def maxAgeMs_def)

text \<open>
  C3, amended. Without \<^verbatim>\<open>--force\<close>, an entry that is present with a time \<open>t\<close> as its
  \<^verbatim>\<open>lastUpdated\<close> (and, for the script, whose file exists) is judged stale if and only if
  \<open>t\<close> is \<open>0\<close> or \<open>now - t\<close> exceeds seven days; so with \<open>t\<close> other than \<open>0\<close> and
  \<open>now - t\<close> at most seven days it is not stale. This holds for \<^verbatim>\<open>shouldDownloadAvatar\<close>
  of the script and for \<^verbatim>\<open>needsRefresh\<close> of the browser module.
\<close>

theorem C3_stale_iff_zero_or_older:
  "(files w filePath \<noteq> None \<longrightarrow> avatars m githubId = Some avatarMeta
      \<longrightarrow> lastUpdated avatarMeta = Some t
      \<longrightarrow> (shouldDownloadAvatar False w m now githubId filePath
             \<longleftrightarrow> t = 0 \<or> now - t > 7 * 24 * 60 * 60 * 1000))
   \<and> (session_avatars (getMetadata st) githubId = Some avatar \<longrightarrow> lastUpdated avatar = Some t'
      \<longrightarrow> (needsRefresh now st githubId \<longleftrightarrow> t' = 0 \<or> now - t' > 7 * 24 * 60 * 60 * 1000))"
  by (auto simp: shouldDownloadAvatar_def needsRefresh_def maxAgeMs_def CACHE_EXPIRATION_def)

theorem C3_stale_iff_zero_or_older_witness:
  "files warm_world ''static/img/avatars/bob.png'' \<noteq> None
   \<and> avatars warm_metadata ''bob''
       = Some \<lparr>lastUpdated = Some 1699999000000, path = ''static/img/avatars/bob.png''\<rparr>
   \<and> \<not> shouldDownloadAvatar False warm_world warm_metadata 1700000000000 ''bob''
         ''static/img/avatars/bob.png''
   \<and> shouldDownloadAvatar False warm_world warm_metadata 1700603800001 ''bob''
         ''static/img/avatars/bob.png''
   \<and> \<not> needsRefresh 1700000000000 example_browser ''bob''
   \<and> needsRefresh 1700603800001 example_browser ''bob''"
proof -
  have f: "files warm_world ''static/img/avatars/bob.png'' \<noteq> None"
    by (simp add: warm_world_def)
  have a: "avatars warm_metadata ''bob''
       = Some \<lparr>lastUpdated = Some 1699999000000, path = ''static/img/avatars/bob.png''\<rparr>"
    by (simp add: warm_metadata_def)
  have s: "session_avatars (getMetadata example_browser) ''bob''
       = Some \<lparr>lastUpdated = Some 1699999000000, path = ''/img/avatars/bob.png''\<rparr>"
    by (simp add: getMetadata_def example_browser_def example_session_def)
  from C3_stale_iff_zero_or_older[of warm_world "''static/img/avatars/bob.png''" warm_metadata
      "''bob''" _ 1699999000000 1700000000000 example_browser _ 1699999000000]
    C3_stale_iff_zero_or_older[of warm_world "''static/img/avatars/bob.png''" warm_metadata
      "''bob''" _ 1699999000000 1700603800001 example_browser _ 1699999000000]
    f a s
  show ?thesis by simp
qed

text \<open>
  C4. At every reading of the clock, a key is judged stale when the metadata has no
  entry for it or the entry has no \<^verbatim>\<open>lastUpdated\<close>, by the script and by the browser
  module alike; and the script judges it stale when there is no file at the path, whatever
  the metadata says.
\<close>

theorem C4_absent_is_stale:
  "(avatars m githubId = None \<or> (\<exists>a. avatars m githubId = Some a \<and> lastUpdated a = None)
      \<longrightarrow> shouldDownloadAvatar forceDownload w m now githubId filePath)
   \<and> (files w filePath = None \<longrightarrow> shouldDownloadAvatar forceDownload w m now githubId filePath)
   \<and> (session_avatars (getMetadata st) githubId = None
        \<or> (\<exists>a. session_avatars (getMetadata st) githubId = Some a \<and> lastUpdated a = None)
      \<longrightarrow> needsRefresh now st githubId)"
  by (auto simp: shouldDownloadAvatar_def needsRefresh_def)

theorem C4_absent_is_stale_witness:
  "avatars warm_metadata ''alice'' = None
   \<and> shouldDownloadAvatar False warm_world warm_metadata 1700000000000 ''alice''
        ''static/img/avatars/alice.png''
   \<and> files empty_world ''static/img/avatars/bob.png'' = None
   \<and> shouldDownloadAvatar False empty_world warm_metadata 1700000000000 ''bob''
        ''static/img/avatars/bob.png''
   \<and> \<not> shouldDownloadAvatar False warm_world warm_metadata 1700000000000 ''bob''
        ''static/img/avatars/bob.png''
   \<and> session_avatars (getMetadata example_browser) ''alice'' = None
   \<and> needsRefresh 1700000000000 example_browser ''alice''"
proof -
  have a: "avatars warm_metadata ''alice'' = None" by (simp add: warm_metadata_def)
  have f: "files empty_world ''static/img/avatars/bob.png'' = None" by (simp add: empty_world_def)
  have s: "session_avatars (getMetadata example_browser) ''alice'' = None"
    by (simp add: getMetadata_def example_browser_def example_session_def)
  have n: "\<not> shouldDownloadAvatar False warm_world warm_metadata 1700000000000 ''bob''
        ''static/img/avatars/bob.png''"
    by (simp add: shouldDownloadAvatar_def warm_world_def warm_metadata_def maxAgeMs_def)
  from C4_absent_is_stale[of warm_metadata "''alice''" False warm_world 1700000000000
      "''static/img/avatars/alice.png''" example_browser]
    C4_absent_is_stale[of warm_metadata "''bob''" False empty_world 1700000000000
      "''static/img/avatars/bob.png''" example_browser]
    a f s n
  show ?thesis by simp
qed

text \<open>
  C5, as stated, fails for the browser module: the URL it fetches for alice carries a
  second parameter \<^verbatim>\<open>t\<close> with the reading of the clock.
\<close>

theorem C5_counterexample:
  "effects (snd (downloadAvatar example_page ''alice'' example_browser)) ! 0
     = Fetch ''https://github.com/alice.png?size=128&t=1700000003000''
   \<and> effects (snd (downloadAvatar example_page ''alice'' example_browser)) ! 0
     \<noteq> Fetch ''https://github.com/alice.png?size=128''"
  by (simp add: downloadAvatar_def example_page_def example_browser_def Let_def ok_def
        show_int_def show_nat.simps digit_char_def saveMetadata_def getMetadata_def)

text \<open>
  C5, amended. For every key, the first request of the script for a key it downloads goes
  to \<^verbatim>\<open>https://github.com/<key>.png?size=128\<close>, with no other parameter; the browser
  module fetches that URL followed by \<^verbatim>\<open>&t=\<close> and the reading of the clock.
\<close>

theorem C5_request_urls:
  "(downloadAvatars e forceDownload m0 w0 [githubId] = Some st
      \<longrightarrow> shouldDownloadAvatar forceDownload w0 m0 (checked_at e githubId) githubId
            (outputPath (avatarsDir e) githubId)
      \<longrightarrow> (\<exists>more. sent (disk st)
             = sent w0 @ (''https://github.com/'' @ githubId @ ''.png?size=128'') # more))
   \<and> (\<exists>more. effects (snd (downloadAvatar p githubId b))
        = effects b @ Fetch (''https://github.com/'' @ githubId @ ''.png?size=128&t=''
                              @ show_int (requested_at p githubId)) # more)"
proof (intro conjI impI)
  assume run: "downloadAvatars e forceDownload m0 w0 [githubId] = Some st"
    and stale: "shouldDownloadAvatar forceDownload w0 m0 (checked_at e githubId) githubId
            (outputPath (avatarsDir e) githubId)"
  then obtain r w' where
    d: "downloadFile (remote e) (writes e) w0 (avatarUrl githubId)
          (outputPath (avatarsDir e) githubId) = Some (r, w')"
    by (auto simp: downloadAvatars_def split: option.splits)
  with run stale have "disk st = w'"
    by (cases r) (auto simp: downloadAvatars_def)
  with downloadFile_sent[OF d] show "\<exists>more. sent (disk st)
             = sent w0 @ (''https://github.com/'' @ githubId @ ''.png?size=128'') # more"
    by (simp add: avatarUrl_eq)
next
  show "\<exists>more. effects (snd (downloadAvatar p githubId b))
        = effects b @ Fetch (''https://github.com/'' @ githubId @ ''.png?size=128&t=''
                              @ show_int (requested_at p githubId)) # more"
    by (rule downloadAvatar_effects)
qed

theorem C5_request_urls_witness:
  "\<exists>st. downloadAvatars example_env False emptyMetadata empty_world [''alice''] = Some st
     \<and> sent (disk st) = [''https://github.com/alice.png?size=128'', ''https://avatars.example/u/1'']
     \<and> (\<exists>more. sent (disk st) = ''https://github.com/alice.png?size=128'' # more)
     \<and> (\<exists>more. effects (snd (downloadAvatar example_page ''alice'' example_browser))
          = Fetch ''https://github.com/alice.png?size=128&t=1700000003000'' # more)"
proof -
  have stale: "shouldDownloadAvatar False empty_world emptyMetadata (checked_at example_env ''alice'')
      ''alice'' (outputPath (avatarsDir example_env) ''alice'')"
    by (simp add: shouldDownloadAvatar_def empty_world_def)
  obtain st where run: "downloadAvatars example_env False emptyMetadata empty_world [''alice''] = Some st"
    and s: "sent (disk st) = [''https://github.com/alice.png?size=128'', ''https://avatars.example/u/1'']"
    by (simp add: downloadAvatars_def shouldDownloadAvatar_def empty_world_def emptyMetadata_def
          example_env_def example_remote_def avatarUrl_eq downloadFile.simps)
  have t: "show_int (requested_at example_page ''alice'') = ''1700000003000''"
    by (simp add: example_page_def show_int_def show_nat.simps digit_char_def)
  from C5_request_urls[of example_env False emptyMetadata empty_world "''alice''" st
      example_page example_browser] run stale s t
  show ?thesis by (simp add: empty_world_def example_browser_def)
qed

text \<open>
  C6. When \<^verbatim>\<open>downloadFile\<close> receives, at once or after redirects it has followed, a
  response with status 301 or 302 and no \<^verbatim>\<open>Location\<close> header, it rejects with the
  redirect error for the URL that answered so, and the directory is as before: no file
  is created, changed or removed.
\<close>

theorem C6_redirect_without_location:
  assumes "after_redirects rem n url = Some u"
    and "rem u = Response statusCode None body"
    and "statusCode = 301 \<or> statusCode = 302"
  shows "\<exists>w'. downloadFile rem wr w url out = Some (Inl (RedirectError u), w')
              \<and> files w' = files w"
proof -
  from downloadFile_after_redirects[OF assms(1), of w wr out] obtain w1 where
    f: "files w1 = files w"
    and d: "downloadFile rem wr w url out = downloadFile rem wr w1 u out"
    by blast
  from assms(2,3) have "downloadFile rem wr w1 u out
      = Some (Inl (RedirectError u), w1\<lparr>sent := sent w1 @ [u]\<rparr>)"
    by (subst downloadFile.simps) auto
  with f d show ?thesis by simp
qed

theorem C6_redirect_without_location_witness:
  "after_redirects example_remote 1 ''https://github.com/carol.png?size=128''
     = Some ''https://avatars.example/u/3''
   \<and> example_remote ''https://avatars.example/u/3'' = Response 302 None []
   \<and> (\<exists>w'. downloadFile example_remote (\<lambda>p. True) warm_world
              ''https://github.com/carol.png?size=128'' ''static/img/avatars/carol.png''
            = Some (Inl (RedirectError ''https://avatars.example/u/3''), w')
          \<and> files w' = files warm_world
          \<and> files w' ''static/img/avatars/carol.png'' = None)"
proof -
  have a: "after_redirects example_remote 1 ''https://github.com/carol.png?size=128''
     = Some ''https://avatars.example/u/3''"
    by (simp add: example_remote_def redirect_target_def)
  have b: "example_remote ''https://avatars.example/u/3'' = Response 302 None []"
    by (simp add: example_remote_def)
  have c: "(302::nat) = 301 \<or> (302::nat) = 302" by simp
  from C6_redirect_without_location[OF a b c, of "\<lambda>p. True" warm_world
      "''static/img/avatars/carol.png''"]
  show ?thesis using a b by (auto simp: warm_world_def)
qed

text \<open>
  C7, as stated, fails for a call in a session that has already checked: the stored
  \<^verbatim>\<open>lastCheck\<close> is more than a day old, and the call writes nothing.
\<close>

theorem C7_counterexample:
  "window (example_browser\<lparr>updatesChecked := True\<rparr>)
   \<and> lastCheck (getMetadata (example_browser\<lparr>updatesChecked := True\<rparr>)) = 1699000000000
   \<and> \<not> (1700000000000 - 1699000000000 < dayMs)
   \<and> checkAndUpdateAvatars 1700000000000 [''alice''] (example_browser\<lparr>updatesChecked := True\<rparr>)
       = (example_browser\<lparr>updatesChecked := True\<rparr>, None)
   \<and> localStorage (visit example_page 1700000000000 [''alice'']
         (example_browser\<lparr>updatesChecked := True\<rparr>)) = Stored example_session
   \<and> effects (visit example_page 1700000000000 [''alice'']
         (example_browser\<lparr>updatesChecked := True\<rparr>)) = []"
  by (simp add: checkAndUpdateAvatars_def visit_def example_browser_def getMetadata_def
        example_session_def dayMs_def)

text \<open>
  C7, amended. For every call of \<^verbatim>\<open>checkAndUpdateAvatars\<close> in a browser whose session has
  not checked yet: when the stored \<^verbatim>\<open>lastCheck\<close> is not \<open>0\<close> and less than 24 hours
  before the reading of the clock, the call sets the flag of the session and nothing else,
  and no timer runs; otherwise the first thing the call does is to hand the metadata with
  the new \<^verbatim>\<open>lastCheck\<close> to \<^verbatim>\<open>setItem\<close>, before any fetch or POST, and the storage holds it
  whenever it accepts the write.
\<close>

theorem C7_first_call_cooldown_or_write_first:
  assumes "window st" and "\<not> updatesChecked st"
  shows "(lastCheck (getMetadata st) \<noteq> 0 \<and> now - lastCheck (getMetadata st) < 24 * 60 * 60 * 1000
           \<longrightarrow> checkAndUpdateAvatars now githubIds st = (st\<lparr>updatesChecked := True\<rparr>, None)
             \<and> visit p now githubIds st = st\<lparr>updatesChecked := True\<rparr>)
       \<and> (\<not> (lastCheck (getMetadata st) \<noteq> 0 \<and> now - lastCheck (getMetadata st) < 24 * 60 * 60 * 1000)
           \<longrightarrow> (\<exists>more. effects (visit p now githubIds st)
                   = effects st @ SetItem ((getMetadata st)\<lparr>lastCheck := now\<rparr>) # more)
             \<and> (quota st \<longrightarrow> localStorage (fst (checkAndUpdateAvatars now githubIds st))
                   = Stored ((getMetadata st)\<lparr>lastCheck := now\<rparr>)))"
proof (intro conjI impI)
  assume c: "lastCheck (getMetadata st) \<noteq> 0 \<and> now - lastCheck (getMetadata st) < 24 * 60 * 60 * 1000"
  with assms show "checkAndUpdateAvatars now githubIds st = (st\<lparr>updatesChecked := True\<rparr>, None)"
    by (simp add: checkAndUpdateAvatars_def getMetadata_def dayMs_def)
  then show "visit p now githubIds st = st\<lparr>updatesChecked := True\<rparr>"
    by (simp add: visit_def)
next
  assume c: "\<not> (lastCheck (getMetadata st) \<noteq> 0 \<and> now - lastCheck (getMetadata st) < 24 * 60 * 60 * 1000)"
  let ?m = "(getMetadata st)\<lparr>lastCheck := now\<rparr>"
  let ?st2 = "saveMetadata ?m (st\<lparr>updatesChecked := True\<rparr>)"
  from c assms have call: "checkAndUpdateAvatars now githubIds st = (?st2, Some (2000, githubIds))"
    by (auto simp: checkAndUpdateAvatars_def getMetadata_def dayMs_def Let_def)
  from assms have e2: "effects ?st2 = effects st @ [SetItem ?m]"
    by (simp add: saveMetadata_def)
  from refresh_loop_effects[of p githubIds 0 ?st2] obtain more where
    "effects (snd (refresh_loop p githubIds 0 ?st2)) = effects ?st2 @ more" by blast
  with call e2 show "\<exists>more. effects (visit p now githubIds st) = effects st @ SetItem ?m # more"
    by (simp add: visit_def)
  { assume "quota st"
    with call assms show "localStorage (fst (checkAndUpdateAvatars now githubIds st)) = Stored ?m"
      by (simp add: saveMetadata_def) }
qed

theorem C7_first_call_cooldown_or_write_first_witness:
  "window example_browser \<and> \<not> updatesChecked example_browser
   \<and> checkAndUpdateAvatars 1699000001000 [''alice''] example_browser
       = (example_browser\<lparr>updatesChecked := True\<rparr>, None)
   \<and> visit example_page 1699000001000 [''alice''] example_browser
       = example_browser\<lparr>updatesChecked := True\<rparr>
   \<and> (\<exists>more. effects (visit example_page 1700000000000 [''alice'', ''bob''] example_browser)
         = SetItem (example_session\<lparr>lastCheck := 1700000000000\<rparr>) # more)
   \<and> localStorage (fst (checkAndUpdateAvatars 1700000000000 [''alice'', ''bob''] example_browser))
       = Stored (example_session\<lparr>lastCheck := 1700000000000\<rparr>)"
proof -
  have w: "window example_browser" and u: "\<not> updatesChecked example_browser"
    and q: "quota example_browser" and e: "effects example_browser = []"
    by (simp_all add: example_browser_def)
  have m: "getMetadata example_browser = example_session"
    by (simp add: getMetadata_def example_browser_def)
  have l: "lastCheck example_session = 1699000000000" by (simp add: example_session_def)
  from C7_first_call_cooldown_or_write_first[OF w u, of 1699000001000 "[''alice'']" example_page]
    C7_first_call_cooldown_or_write_first[OF w u, of 1700000000000 "[''alice'', ''bob'']" example_page]
    w u q e m l
  show ?thesis by simp
qed

text \<open>
  C8. After one call of \<^verbatim>\<open>checkAndUpdateAvatars\<close> in a session, every later call in the
  session is a no-op: it returns the state as it found it (no event, no change of the
  storage) and sets no timer, whether it comes before or after the timer of the first
  call has run; so a whole session does what its first call does.
\<close>

theorem C8_later_calls_do_nothing:
  "checkAndUpdateAvatars now2 ids2 (fst (checkAndUpdateAvatars now1 ids1 st))
     = (fst (checkAndUpdateAvatars now1 ids1 st), None)
   \<and> checkAndUpdateAvatars now2 ids2 (visit p now1 ids1 st) = (visit p now1 ids1 st, None)
   \<and> visits p ((now1, ids1) # later) st = visit p now1 ids1 st"
  using gate_closed[OF gate_after_call] gate_closed[OF gate_after_visit]
    gate_closed_visits[OF gate_after_visit]
  by simp

theorem C8_later_calls_do_nothing_witness:
  "effects (visit example_page 1700000000000 [''alice''] example_browser) \<noteq> []
   \<and> checkAndUpdateAvatars 1700100000000 [''alice'', ''bob'']
        (visit example_page 1700000000000 [''alice''] example_browser)
       = (visit example_page 1700000000000 [''alice''] example_browser, None)
   \<and> visits example_page [(1700000000000, [''alice'']), (1700100000000, [''alice'', ''bob'']),
                           (1700900000000, [''bob''])] example_browser
       = visit example_page 1700000000000 [''alice''] example_browser"
proof -
  have "effects (visit example_page 1700000000000 [''alice''] example_browser) \<noteq> []"
    by (simp add: visit_def checkAndUpdateAvatars_def example_browser_def getMetadata_def
          example_session_def dayMs_def saveMetadata_def Let_def needsRefresh_def
          downloadAvatar_def example_page_def ok_def show_int_def show_nat.simps digit_char_def)
  with C8_later_calls_do_nothing[of 1700100000000 "[''alice'', ''bob'']" 1700000000000
      "[''alice'']" example_browser example_page "[(1700100000000, [''alice'', ''bob'']),
                           (1700900000000, [''bob''])]"]
  show ?thesis by simp
qed

text \<open>
  C9, as stated, fails for a key whose recorded time is \<open>0\<close>: the parameter is the
  reading of the clock, not the recorded time.
\<close>

theorem C9_counterexample:
  "window epoch_browser
   \<and> session_avatars (getMetadata epoch_browser) ''bob''
       = Some \<lparr>lastUpdated = Some 0, path = ''/img/avatars/bob.png''\<rparr>
   \<and> getAvatarUrl 1700000000000 epoch_browser ''bob'' = ''/img/avatars/bob.png?t=1700000000000''
   \<and> getAvatarUrl 1700000000000 epoch_browser ''bob'' \<noteq> ''/img/avatars/bob.png?t='' @ show_int 0"
  by (simp add: getAvatarUrl_def getMetadata_def epoch_browser_def AVATAR_DIR_def
        show_int_def show_nat.simps digit_char_def Let_def)

text \<open>
  C9, amended. For every key, \<^verbatim>\<open>getAvatarUrl\<close> of the browser module returns
  \<^verbatim>\<open>/img/avatars/<key>.png\<close>; when \<^verbatim>\<open>window\<close> is defined it adds \<^verbatim>\<open>?t=\<close> and the time
  recorded for the key if there is one other than \<open>0\<close>, and the reading of the clock if
  the key has no entry, no time, or the time \<open>0\<close>; without \<^verbatim>\<open>window\<close> it adds nothing. The
  copy of the service without storage adds nothing either. Both are total.
\<close>

theorem C9_avatar_url:
  "(window st \<longrightarrow> session_avatars (getMetadata st) githubId = Some a \<longrightarrow> lastUpdated a = Some t
      \<longrightarrow> t \<noteq> 0
      \<longrightarrow> getAvatarUrl now st githubId = ''/img/avatars/'' @ githubId @ ''.png?t='' @ show_int t)
   \<and> (window st
      \<longrightarrow> session_avatars (getMetadata st) githubId = None
          \<or> (\<exists>a. session_avatars (getMetadata st) githubId = Some a
                \<and> (lastUpdated a = None \<or> lastUpdated a = Some 0))
      \<longrightarrow> getAvatarUrl now st githubId = ''/img/avatars/'' @ githubId @ ''.png?t='' @ show_int now)
   \<and> (\<not> window st \<longrightarrow> getAvatarUrl now st githubId = ''/img/avatars/'' @ githubId @ ''.png'')
   \<and> getAvatarUrl_plain githubId = ''/img/avatars/'' @ githubId @ ''.png''"
  by (auto simp: getAvatarUrl_def getAvatarUrl_plain_def AVATAR_DIR_def Let_def)

theorem C9_avatar_url_witness:
  "getAvatarUrl 1700000000000 example_browser ''bob'' = ''/img/avatars/bob.png?t=1699999000000''
   \<and> getAvatarUrl 1700000000000 example_browser ''nobody''
       = ''/img/avatars/nobody.png?t=1700000000000''
   \<and> getAvatarUrl 1700000000000 server_render ''bob'' = ''/img/avatars/bob.png''
   \<and> getAvatarUrl_plain ''bob'' = ''/img/avatars/bob.png''"
proof -
  have w: "window example_browser" by (simp add: example_browser_def)
  have nw: "\<not> window server_render" by (simp add: server_render_def)
  have s: "session_avatars (getMetadata example_browser) ''bob''
       = Some \<lparr>lastUpdated = Some 1699999000000, path = ''/img/avatars/bob.png''\<rparr>"
    by (simp add: getMetadata_def example_browser_def example_session_def)
  have n: "session_avatars (getMetadata example_browser) ''nobody'' = None"
    by (simp add: getMetadata_def example_browser_def example_session_def)
  have d: "show_int 1699999000000 = ''1699999000000''" "show_int 1700000000000 = ''1700000000000''"
    by (simp_all add: show_int_def show_nat.simps digit_char_def)
  from C9_avatar_url[of example_browser "''bob''" _ 1699999000000 1700000000000]
    C9_avatar_url[of example_browser "''nobody''" _ 0 1700000000000]
    C9_avatar_url[of server_render "''bob''" _ 0 1700000000000]
    w nw s n d
  show ?thesis by simp
qed

text \<open>
  C10. For every list of keys and whatever happens to each key, when
  \<^verbatim>\<open>downloadAvatars\<close> ends, the counters downloaded, skipped and failed add up to the
  length of the list, as does the counter of completed keys; and it does end when the
  download of every key settles.
\<close>

theorem C10_every_key_counted_once:
  "(downloadAvatars e forceDownload m0 w0 githubIds = Some st
      \<longrightarrow> downloaded st + skipped st + failed st = length githubIds
        \<and> completed st = length githubIds \<and> total st = length githubIds)
   \<and> ((\<forall>k\<in>set githubIds. settles e k)
      \<longrightarrow> (\<exists>st'. downloadAvatars e forceDownload m0 w0 githubIds = Some st'))"
proof (intro conjI impI)
  assume "downloadAvatars e forceDownload m0 w0 githubIds = Some st"
  then have "forEach_githubId e forceDownload w0 m0 githubIds
       \<lparr>total = length githubIds, completed = 0, downloaded = 0, skipped = 0, failed = 0,
        meta = m0, disk = w0\<rparr> = Some st"
    by (simp add: downloadAvatars_def)
  from forEach_counts[OF this]
  show "downloaded st + skipped st + failed st = length githubIds"
    and "completed st = length githubIds" and "total st = length githubIds"
    by simp_all
next
  assume "\<forall>k\<in>set githubIds. settles e k"
  from forEach_settles[OF this]
  show "\<exists>st'. downloadAvatars e forceDownload m0 w0 githubIds = Some st'"
    by (simp add: downloadAvatars_def)
qed

theorem C10_every_key_counted_once_witness:
  "\<exists>st. downloadAvatars example_env False warm_metadata warm_world [''alice'', ''bob'', ''carol'']
          = Some st
     \<and> downloaded st + skipped st + failed st = 3
     \<and> downloaded st = 1 \<and> skipped st = 1 \<and> failed st = 1"
proof -
  have s: "\<forall>k\<in>set [''alice'', ''bob'', ''carol'']. settles example_env k"
    using example_settle example_carol_settles by simp
  with C10_every_key_counted_once[of example_env False warm_metadata warm_world
      "[''alice'', ''bob'', ''carol'']"]
  obtain st where run: "downloadAvatars example_env False warm_metadata warm_world
      [''alice'', ''bob'', ''carol''] = Some st"
    by blast
  with C10_every_key_counted_once[of example_env False warm_metadata warm_world
      "[''alice'', ''bob'', ''carol'']" st]
  have sum: "downloaded st + skipped st + failed st = 3" by simp
  from run have "downloaded st = 1 \<and> skipped st = 1 \<and> failed st = 1"
    by (auto simp: downloadAvatars_def shouldDownloadAvatar_def warm_metadata_def warm_world_def
          example_env_def example_remote_def avatarUrl_eq outputPath_def maxAgeMs_def
          downloadFile.simps)
  with run sum show ?thesis by blast
qed

end
